theory Spec2Isabelle
  imports Complex_Main "HOL-Library.List_Lexorder" "HOL-Library.Char_ord"
begin

section \<open>Values: timestamps, dates and float cells\<close>

text \<open>
  The dashboard script \<^verbatim>\<open>streamlit_app.py\<close> fetches three tables, filters them with
  pandas, derives a few columns and aggregates. The embedding keeps a table as the list
  of its rows (in index order) and a column as the list of its cells.

  A \<^verbatim>\<open>TIME_WINDOW\<close> is a naive pandas timestamp: an integer number of nanoseconds
  since the epoch. A date picked in \<^verbatim>\<open>st.date_input\<close> is a whole number of days;
  \<^verbatim>\<open>pd.to_datetime(date)\<close> is midnight of that day.
\<close>

type_synonym timestamp = int

type_synonym date = int

definition to_datetime :: "date \<Rightarrow> timestamp" where
  "to_datetime d = d * 86400000000000"

text \<open>
  \<^verbatim>\<open>Series.between(left, right)\<close> with its default \<^verbatim>\<open>inclusive="both"\<close>, and
  \<^verbatim>\<open>Series.isin(values)\<close>, cell by cell.
\<close>

definition between :: "timestamp \<Rightarrow> timestamp \<Rightarrow> timestamp \<Rightarrow> bool" where
  "between t left right = (left \<le> t \<and> t \<le> right)"

definition isin :: "'a \<Rightarrow> 'a list \<Rightarrow> bool" where
  "isin v vals = (v \<in> set vals)"

text \<open>
  \<^verbatim>\<open>date_range[0]\<close> and \<^verbatim>\<open>date_range[1]\<close>: the widget returns a tuple that holds
  fewer than two dates while the user is still picking, and indexing it then raises.
\<close>

datatype error = IndexError | DateInputError

definition date_bounds :: "date list \<Rightarrow> error + timestamp \<times> timestamp" where
  "date_bounds date_range =
     (case date_range of
        d0 # d1 # _ \<Rightarrow> Inr (to_datetime d0, to_datetime d1)
      | _ \<Rightarrow> Inl IndexError)"

text \<open>
  The default of the date widget, \<^verbatim>\<open>[col.min().date(), col.max().date()]\<close> for the
  \<^verbatim>\<open>TIME_WINDOW\<close> column of the frame at hand: the days of its earliest and latest
  time window. The minimum and maximum of an empty column are \<^verbatim>\<open>NaT\<close>, which is no
  date: \<^verbatim>\<open>st.date_input\<close> raises, and the script stops there.
\<close>

definition date_of :: "timestamp \<Rightarrow> date" where
  "date_of t = t div 86400000000000"

definition date_input_default :: "timestamp list \<Rightarrow> error + date list" where
  "date_input_default col =
     (case col of
        [] \<Rightarrow> Inl DateInputError
      | t # ts \<Rightarrow> Inr [date_of (fold min ts t), date_of (fold max ts t)])"

text \<open>
  The columns fetched from the warehouse hold numbers (reals stand for the floats; the
  rounding of float arithmetic is not modelled). A cell that the script derives can also
  be missing (\<^verbatim>\<open>pd.NA\<close>, or the \<^verbatim>\<open>NaN\<close> that pandas returns for the minimum
  or mean of nothing) or infinite (what pandas returns for a division by zero).
\<close>

datatype cell = Num real | NA | PosInf | NegInf

text \<open>\<^verbatim>\<open>Series.replace(0, pd.NA)\<close>, cell by cell.\<close>

fun replace_zero_NA :: "cell \<Rightarrow> cell" where
  "replace_zero_NA (Num v) = (if v = 0 then NA else Num v)"
| "replace_zero_NA c = c"

text \<open>
  \<^verbatim>\<open>a / b\<close> on float columns, cell by cell, for a numerator column without missing
  cells: pandas does not raise on a zero denominator, it yields an infinity (or NaN for
  0/0); a missing denominator gives a missing quotient.
\<close>

fun truediv :: "real \<Rightarrow> cell \<Rightarrow> cell" where
  "truediv a (Num d) =
     (if d = 0 then (if 0 < a then PosInf else if a < 0 then NegInf else NA)
      else Num (a / d))"
| "truediv a NA = NA"
| "truediv a PosInf = Num 0"
| "truediv a NegInf = Num 0"

text \<open>
  \<^verbatim>\<open>Series.min()\<close> and \<^verbatim>\<open>Series.max()\<close> skip missing cells and return NaN when
  nothing is left, in particular on an empty column.
\<close>

fun cell_min :: "cell \<Rightarrow> cell \<Rightarrow> cell" where
  "cell_min NA b = b"
| "cell_min a NA = a"
| "cell_min NegInf b = NegInf"
| "cell_min a NegInf = NegInf"
| "cell_min PosInf b = b"
| "cell_min a PosInf = a"
| "cell_min (Num x) (Num y) = Num (min x y)"

fun cell_max :: "cell \<Rightarrow> cell \<Rightarrow> cell" where
  "cell_max NA b = b"
| "cell_max a NA = a"
| "cell_max PosInf b = PosInf"
| "cell_max a PosInf = PosInf"
| "cell_max NegInf b = b"
| "cell_max a NegInf = a"
| "cell_max (Num x) (Num y) = Num (max x y)"

definition series_min :: "cell list \<Rightarrow> cell" where
  "series_min col = fold cell_min col NA"

definition series_max :: "cell list \<Rightarrow> cell" where
  "series_max col = fold cell_max col NA"

text \<open>
  Adding a constant to a float, or scaling it by a positive constant: NaN and the
  infinities stay what they are.
\<close>

fun cell_map :: "(real \<Rightarrow> real) \<Rightarrow> cell \<Rightarrow> cell" where
  "cell_map f (Num v) = Num (f v)"
| "cell_map f c = c"

text \<open>
  \<^verbatim>\<open>Series.sum()\<close> and \<^verbatim>\<open>Series.mean()\<close> of a column of numbers; the mean of
  an empty column is NaN.
\<close>

definition mean :: "real list \<Rightarrow> cell" where
  "mean col = (if col = [] then NA else Num (sum_list col / real (length col)))"

section \<open>The three tables\<close>

record dc_row =
  dc_DATACENTER_ID :: string
  dc_TIME_WINDOW :: timestamp
  dc_TOTAL_POWER_KW :: real
  dc_COOLING_KW :: real
  dc_PUE :: real
  dc_EFFICIENCY :: real

record fac_row =
  fac_FACILITY_ID :: string
  fac_TIME_WINDOW :: timestamp
  fac_TOTAL_POWER_KW :: real
  fac_AVG_TEMP_C :: real
  fac_RACKS_ACTIVE :: int
  fac_PUE :: real
  fac_DATACENTER_ID :: string

record rack_row =
  rack_FACILITY_ID :: string
  rack_RACK_ID :: string
  rack_TIME_WINDOW :: timestamp
  rack_AVG_TEMP_C :: real
  rack_AVG_POWER_KW :: real
  rack_EFFICIENCY :: real
  rack_PUE :: real

section \<open>Group-by aggregation\<close>

text \<open>
  \<^verbatim>\<open>df.groupby(key)\<close>: one group per distinct key, the groups in ascending key order
  (pandas sorts group keys by default; Python compares strings lexicographically), each
  group holding its rows in their original order.
\<close>

definition groupby :: "('r \<Rightarrow> 'k::linorder) \<Rightarrow> 'r list \<Rightarrow> ('k \<times> 'r list) list" where
  "groupby key df = map (\<lambda>k. (k, filter (\<lambda>r. key r = k) df)) (sort (remdups (map key df)))"

section \<open>Tab 2: the efficiency rating\<close>

text \<open>
  The comparison \<^verbatim>\<open>pue < c\<close> of a float with a constant: false for NaN.
\<close>

fun float_lt :: "cell \<Rightarrow> real \<Rightarrow> bool" where
  "float_lt (Num v) c = (v < c)"
| "float_lt NA c = False"
| "float_lt PosInf c = False"
| "float_lt NegInf c = True"

definition classify_efficiency :: "cell \<Rightarrow> string" where
  "classify_efficiency pue =
     (if float_lt pue 1.3 then ''Excellent''
      else if float_lt pue 1.6 then ''Good''
      else if float_lt pue 2.0 then ''Moderate''
      else ''Poor'')"

section \<open>Tab 1: datacenter efficiency\<close>

text \<open>
  The frame handed to \<^verbatim>\<open>datacenter_dashboard\<close>: the rows of the selected datacenters
  whose time window is between the two picked dates.
\<close>

definition df_dc_filter :: "string list \<Rightarrow> date list \<Rightarrow> dc_row list \<Rightarrow> error + dc_row list" where
  "df_dc_filter selected_dc date_range df_dc =
     (case date_bounds date_range of
        Inl e \<Rightarrow> Inl e
      | Inr (left, right) \<Rightarrow>
          Inr (filter (\<lambda>r. isin (dc_DATACENTER_ID r) selected_dc
                          \<and> between (dc_TIME_WINDOW r) left right) df_dc))"

section \<open>Tab 2: facility operations\<close>

text \<open>
  The radio button chooses between one datacenter (a select box) and a list of
  facilities (a multiselect); the frame \<^verbatim>\<open>df_fac\<close> is narrowed accordingly, and then
  to the date range.
\<close>

datatype filter_type = Datacenter string | Facility "string list"

fun entity_filter :: "filter_type \<Rightarrow> fac_row list \<Rightarrow> fac_row list" where
  "entity_filter (Datacenter selected_dc) df_fac =
     filter (\<lambda>r. fac_DATACENTER_ID r = selected_dc) df_fac"
| "entity_filter (Facility selected_fac) df_fac =
     filter (\<lambda>r. isin (fac_FACILITY_ID r) selected_fac) df_fac"

definition date_filter :: "timestamp \<Rightarrow> timestamp \<Rightarrow> fac_row list \<Rightarrow> fac_row list" where
  "date_filter left right df = filter (\<lambda>r. between (fac_TIME_WINDOW r) left right) df"

definition df_fac_filter :: "filter_type \<Rightarrow> date list \<Rightarrow> fac_row list \<Rightarrow> error + fac_row list" where
  "df_fac_filter sel date_range df_fac =
     (case date_bounds date_range of
        Inl e \<Rightarrow> Inl e
      | Inr (left, right) \<Rightarrow> Inr (date_filter left right (entity_filter sel df_fac)))"

text \<open>
  The derived metric of lines 239 and 275: total power over active racks, the zero
  denominators replaced by a missing value before the division.
\<close>

definition avg_power_per_rack :: "real \<Rightarrow> cell \<Rightarrow> cell" where
  "avg_power_per_rack total_power_kw racks_active =
     truediv total_power_kw (replace_zero_NA racks_active)"

text \<open>
  \<^verbatim>\<open>facility_perf\<close>: the group-by aggregation per facility (sum of power, mean of
  temperature, active racks and PUE), then the normalised metric as a sixth column.
\<close>

record facility_agg_row =
  agg_FACILITY_ID :: string
  agg_TOTAL_POWER_KW :: real
  agg_AVG_TEMP_C :: cell
  agg_RACKS_ACTIVE :: cell
  agg_PUE :: cell

record facility_perf_row =
  fp_FACILITY_ID :: string
  fp_TOTAL_POWER_KW :: real
  fp_AVG_TEMP_C :: cell
  fp_RACKS_ACTIVE :: cell
  fp_PUE :: cell
  fp_AVG_POWER_PER_RACK :: cell

definition facility_agg :: "fac_row list \<Rightarrow> facility_agg_row list" where
  "facility_agg df_summary =
     map (\<lambda>(k, g).
            \<lparr>agg_FACILITY_ID = k,
             agg_TOTAL_POWER_KW = sum_list (map fac_TOTAL_POWER_KW g),
             agg_AVG_TEMP_C = mean (map fac_AVG_TEMP_C g),
             agg_RACKS_ACTIVE = mean (map (\<lambda>r. real_of_int (fac_RACKS_ACTIVE r)) g),
             agg_PUE = mean (map fac_PUE g)\<rparr>)
         (groupby fac_FACILITY_ID df_summary)"

definition with_avg_power_per_rack :: "facility_agg_row \<Rightarrow> facility_perf_row" where
  "with_avg_power_per_rack a =
     \<lparr>fp_FACILITY_ID = agg_FACILITY_ID a,
      fp_TOTAL_POWER_KW = agg_TOTAL_POWER_KW a,
      fp_AVG_TEMP_C = agg_AVG_TEMP_C a,
      fp_RACKS_ACTIVE = agg_RACKS_ACTIVE a,
      fp_PUE = agg_PUE a,
      fp_AVG_POWER_PER_RACK = avg_power_per_rack (agg_TOTAL_POWER_KW a) (agg_RACKS_ACTIVE a)\<rparr>"

definition facility_perf :: "fac_row list \<Rightarrow> facility_perf_row list" where
  "facility_perf df_summary = map with_avg_power_per_rack (facility_agg df_summary)"

text \<open>
  The column \<^verbatim>\<open>df_fac["AVG_POWER_PER_RACK"]\<close> of line 275, and the two axis domains
  of the power-per-rack chart: minimum and maximum of a column, scaled or shifted, with
  no test for an empty frame.
\<close>

definition df_fac_AVG_POWER_PER_RACK :: "fac_row list \<Rightarrow> cell list" where
  "df_fac_AVG_POWER_PER_RACK df_fac =
     map (\<lambda>r. avg_power_per_rack (fac_TOTAL_POWER_KW r) (Num (real_of_int (fac_RACKS_ACTIVE r))))
         df_fac"

definition power_chart_domain :: "fac_row list \<Rightarrow> cell \<times> cell" where
  "power_chart_domain df_fac =
     (cell_map (\<lambda>m. m * 0.9) (series_min (df_fac_AVG_POWER_PER_RACK df_fac)),
      cell_map (\<lambda>m. m * 1.05) (series_max (df_fac_AVG_POWER_PER_RACK df_fac)))"

definition temp_chart_domain :: "fac_row list \<Rightarrow> cell \<times> cell" where
  "temp_chart_domain df_fac =
     (cell_map (\<lambda>m. m - 1) (series_min (map (\<lambda>r. Num (fac_AVG_TEMP_C r)) df_fac)),
      cell_map (\<lambda>m. m + 1) (series_max (map (\<lambda>r. Num (fac_AVG_TEMP_C r)) df_fac)))"

text \<open>
  One run of the tab, from the fetched table and the widget values to what the page
  shows. \<^verbatim>\<open>df_summary\<close> is a copy of the frame \<^verbatim>\<open>df_fac\<close> that the entity and
  date filters have already narrowed, filtered by the date range once more.
\<close>

record facility_tab_output =
  ft_df_fac :: "fac_row list"
  ft_facility_perf :: "facility_perf_row list"
  ft_power_chart_domain :: "cell \<times> cell"
  ft_temp_chart_domain :: "cell \<times> cell"

definition facility_tab :: "filter_type \<Rightarrow> date list \<Rightarrow> fac_row list \<Rightarrow> error + facility_tab_output" where
  "facility_tab sel date_range df_fac0 =
     (case date_bounds date_range of
        Inl e \<Rightarrow> Inl e
      | Inr (left, right) \<Rightarrow>
          (let df_fac = date_filter left right (entity_filter sel df_fac0);
               df_summary = date_filter left right df_fac
           in Inr \<lparr>ft_df_fac = df_fac,
                   ft_facility_perf = facility_perf df_summary,
                   ft_power_chart_domain = power_chart_domain df_fac,
                   ft_temp_chart_domain = temp_chart_domain df_fac\<rparr>))"

text \<open>
  The tab as the script runs it: the date widget is drawn from the frame that the
  entity filter has left (lines 206 to 210), and \<^verbatim>\<open>date_range\<close> is what the user
  picked in it; nothing after the widget runs when drawing it raises.
\<close>

definition run_tab2 :: "filter_type \<Rightarrow> date list \<Rightarrow> fac_row list \<Rightarrow> error + facility_tab_output" where
  "run_tab2 sel date_range df_fac0 =
     (case date_input_default (map fac_TIME_WINDOW (entity_filter sel df_fac0)) of
        Inl e \<Rightarrow> Inl e
      | Inr default_range \<Rightarrow> facility_tab sel date_range df_fac0)"

section \<open>Tab 3: rack health and anomalies\<close>

definition df_rack_filter :: "date list \<Rightarrow> rack_row list \<Rightarrow> error + rack_row list" where
  "df_rack_filter date_range df_rack =
     (case date_bounds date_range of
        Inl e \<Rightarrow> Inl e
      | Inr (left, right) \<Rightarrow>
          Inr (filter (\<lambda>r. between (rack_TIME_WINDOW r) left right) df_rack))"

text \<open>
  \<^verbatim>\<open>alerts\<close>: the rows selected by the boolean mask of line 498, reduced to six
  columns.
\<close>

record alert_row =
  al_FACILITY_ID :: string
  al_RACK_ID :: string
  al_TIME_WINDOW :: timestamp
  al_AVG_TEMP_C :: real
  al_EFFICIENCY :: real
  al_PUE :: real

definition alert_columns :: "rack_row \<Rightarrow> alert_row" where
  "alert_columns r =
     \<lparr>al_FACILITY_ID = rack_FACILITY_ID r,
      al_RACK_ID = rack_RACK_ID r,
      al_TIME_WINDOW = rack_TIME_WINDOW r,
      al_AVG_TEMP_C = rack_AVG_TEMP_C r,
      al_EFFICIENCY = rack_EFFICIENCY r,
      al_PUE = rack_PUE r\<rparr>"

definition alerts :: "rack_row list \<Rightarrow> alert_row list" where
  "alerts df_rack_filtered =
     map alert_columns
       (filter (\<lambda>r. rack_AVG_TEMP_C r > 30 \<or> rack_EFFICIENCY r < 0.62) df_rack_filtered)"

text \<open>
  What the page shows for the alerts: the table, newest time window first, or the
  information box. (The order that \<^verbatim>\<open>sort_values\<close> gives to rows of equal time
  window is left to the sorting routine; here they keep their order.)
\<close>

datatype alerts_view = Dataframe "alert_row list" | Info string

definition show_alerts :: "alert_row list \<Rightarrow> alerts_view" where
  "show_alerts al =
     (if length al > 0 then Dataframe (sort_key (\<lambda>a. - al_TIME_WINDOW a) al)
      else Info ''No anomalies detected for the selected date range.'')"

record kpi_row =
  kpi_FACILITY_ID :: string
  kpi_avg_temp :: cell
  kpi_avg_power :: cell
  kpi_avg_eff :: cell
  kpi_avg_pue :: cell

definition kpi_summary :: "rack_row list \<Rightarrow> kpi_row list" where
  "kpi_summary df_rack_filtered =
     map (\<lambda>(k, g).
            \<lparr>kpi_FACILITY_ID = k,
             kpi_avg_temp = mean (map rack_AVG_TEMP_C g),
             kpi_avg_power = mean (map rack_AVG_POWER_KW g),
             kpi_avg_eff = mean (map rack_EFFICIENCY g),
             kpi_avg_pue = mean (map rack_PUE g)\<rparr>)
         (groupby rack_FACILITY_ID df_rack_filtered)"

definition df_fac_filtered :: "string list \<Rightarrow> rack_row list \<Rightarrow> rack_row list" where
  "df_fac_filtered selected_facilities df_rack_filtered =
     filter (\<lambda>r. isin (rack_FACILITY_ID r) selected_facilities) df_rack_filtered"

text \<open>
  The axis bounds of the two rack trend charts: minimum and maximum of the column when
  the frame has rows, the constants 0.0 and 1.0 when it has none.
\<close>

definition temp_min :: "rack_row list \<Rightarrow> cell" where
  "temp_min df = (if length df \<noteq> 0 then series_min (map (\<lambda>r. Num (rack_AVG_TEMP_C r)) df) else Num 0.0)"

definition temp_max :: "rack_row list \<Rightarrow> cell" where
  "temp_max df = (if length df \<noteq> 0 then series_max (map (\<lambda>r. Num (rack_AVG_TEMP_C r)) df) else Num 1.0)"

definition eff_min :: "rack_row list \<Rightarrow> cell" where
  "eff_min df = (if length df \<noteq> 0 then series_min (map (\<lambda>r. Num (rack_EFFICIENCY r)) df) else Num 0.0)"

definition eff_max :: "rack_row list \<Rightarrow> cell" where
  "eff_max df = (if length df \<noteq> 0 then series_max (map (\<lambda>r. Num (rack_EFFICIENCY r)) df) else Num 1.0)"

definition rack_temp_domain :: "rack_row list \<Rightarrow> cell \<times> cell" where
  "rack_temp_domain df = (cell_map (\<lambda>m. m - 1) (temp_min df), cell_map (\<lambda>m. m + 1) (temp_max df))"

definition rack_eff_domain :: "rack_row list \<Rightarrow> cell \<times> cell" where
  "rack_eff_domain df = (cell_map (\<lambda>m. m - 0.05) (eff_min df), cell_map (\<lambda>m. m + 0.05) (eff_max df))"

text \<open>
  One run of the tab. The facility multiselect is read after the alerts and the KPI
  summary have been built from the date-filtered frame.
\<close>

record rack_tab_output =
  rt_alerts :: alerts_view
  rt_kpi_summary :: "kpi_row list"
  rt_df_fac_filtered :: "rack_row list"
  rt_temp_domain :: "cell \<times> cell"
  rt_eff_domain :: "cell \<times> cell"

definition rack_tab :: "date list \<Rightarrow> string list \<Rightarrow> rack_row list \<Rightarrow> error + rack_tab_output" where
  "rack_tab date_range selected_facilities df_rack =
     (case df_rack_filter date_range df_rack of
        Inl e \<Rightarrow> Inl e
      | Inr df_rack_filtered \<Rightarrow>
          (let df = df_fac_filtered selected_facilities df_rack_filtered
           in Inr \<lparr>rt_alerts = show_alerts (alerts df_rack_filtered),
                   rt_kpi_summary = kpi_summary df_rack_filtered,
                   rt_df_fac_filtered = df,
                   rt_temp_domain = rack_temp_domain df,
                   rt_eff_domain = rack_eff_domain df\<rparr>))"

text \<open>
  The tab as the script runs it: the date widget is drawn from the fetched table (lines
  483 to 487), before any filter.
\<close>

definition run_tab3 :: "date list \<Rightarrow> string list \<Rightarrow> rack_row list \<Rightarrow> error + rack_tab_output" where
  "run_tab3 date_range selected_facilities df_rack =
     (case date_input_default (map rack_TIME_WINDOW df_rack) of
        Inl e \<Rightarrow> Inl e
      | Inr default_range \<Rightarrow> rack_tab date_range selected_facilities df_rack)"

section \<open>Sample tables\<close>

text \<open>Rows with given key, time window and measurements, for concrete runs.\<close>

definition fac_example :: "string \<Rightarrow> timestamp \<Rightarrow> real \<Rightarrow> int \<Rightarrow> fac_row" where
  "fac_example f t kw racks =
     \<lparr>fac_FACILITY_ID = f, fac_TIME_WINDOW = t, fac_TOTAL_POWER_KW = kw,
      fac_AVG_TEMP_C = kw, fac_RACKS_ACTIVE = racks, fac_PUE = kw,
      fac_DATACENTER_ID = ''DC1''\<rparr>"

definition rack_example :: "string \<Rightarrow> timestamp \<Rightarrow> real \<Rightarrow> real \<Rightarrow> rack_row" where
  "rack_example f t temp eff =
     \<lparr>rack_FACILITY_ID = f, rack_RACK_ID = ''R01'', rack_TIME_WINDOW = t,
      rack_AVG_TEMP_C = temp, rack_AVG_POWER_KW = temp, rack_EFFICIENCY = eff, rack_PUE = 1.5\<rparr>"

text \<open>
  Two facilities with two rows each: power (and temperature, active racks, PUE)
  10 and 20 for the first, 30 and 40 for the second.
\<close>

definition two_facilities :: "fac_row list" where
  "two_facilities =
     [fac_example ''F02'' 0 30 30, fac_example ''F01'' 0 10 10,
      fac_example ''F01'' 1 20 20, fac_example ''F02'' 1 40 40]"

definition two_rack_facilities :: "rack_row list" where
  "two_rack_facilities =
     [rack_example ''F02'' 0 30 0.9, rack_example ''F01'' 0 10 0.9,
      rack_example ''F01'' 1 20 0.9, rack_example ''F02'' 1 40 0.9]"

text \<open>
  Midnight of day 1, midnight of day 2, and rows just outside: one on day 0 and one a
  nanosecond after midnight of day 2.
\<close>

definition four_days :: "rack_row list" where
  "four_days =
     [rack_example ''F01'' 0 20 0.9, rack_example ''F01'' 86400000000000 35 0.9,
      rack_example ''F01'' 172800000000000 20 0.9, rack_example ''F01'' 172800000000001 20 0.5]"

section \<open>Auxiliary facts\<close>

lemma date_bounds_pair: "date_bounds [s, e] = Inr (to_datetime s, to_datetime e)"
  by (simp add: date_bounds_def)

lemma date_filter_idem: "date_filter l r (date_filter l r df) = date_filter l r df"
  by (simp add: date_filter_def)

text \<open>
  An entity selection of tab 2 that leaves no rows, or an empty rack table, ends the
  run at the date widget.
\<close>

lemma run_tab2_empty_selection:
  "entity_filter sel df_fac = [] \<Longrightarrow> run_tab2 sel date_range df_fac = Inl DateInputError"
  by (simp add: run_tab2_def date_input_default_def)

lemma run_tab3_empty_table: "run_tab3 date_range selected_facilities [] = Inl DateInputError"
  by (simp add: run_tab3_def date_input_default_def)

lemma avg_power_per_rack_Num:
  "avg_power_per_rack p (Num n) = (if n = 0 then NA else Num (p / n))"
  by (simp add: avg_power_per_rack_def)

text \<open>Without the replacement the division would give an infinity.\<close>

lemma truediv_by_zero: "truediv 100 (Num 0) = PosInf"
  by simp

subsection \<open>Groups\<close>

lemma groupby_keys: "map fst (groupby key df) = sort (remdups (map key df))"
  by (simp add: groupby_def comp_def)

lemma groupby_distinct: "distinct (map fst (groupby key df))"
  by (simp add: groupby_keys)

lemma groupby_group:
  assumes "(k, g) \<in> set (groupby key df)"
  shows "g = filter (\<lambda>r. key r = k) df" and "g \<noteq> []"
proof -
  from assms have k: "k \<in> key ` set df" and g: "g = filter (\<lambda>r. key r = k) df"
    by (auto simp: groupby_def)
  show "g = filter (\<lambda>r. key r = k) df" by (rule g)
  from k show "g \<noteq> []" unfolding g by (auto simp: filter_empty_conv)
qed

lemma facility_agg_RACKS_Num:
  "a \<in> set (facility_agg df) \<Longrightarrow> \<exists>n. agg_RACKS_ACTIVE a = Num n"
  by (auto simp: facility_agg_def groupby_def mean_def filter_empty_conv)

lemma facility_perf_ids:
  "map fp_FACILITY_ID (facility_perf df) = map fst (groupby fac_FACILITY_ID df)"
  by (simp add: facility_perf_def facility_agg_def with_avg_power_per_rack_def comp_def
      case_prod_beta)

lemma kpi_summary_ids:
  "map kpi_FACILITY_ID (kpi_summary df) = map fst (groupby rack_FACILITY_ID df)"
  by (simp add: kpi_summary_def comp_def case_prod_beta)

lemma facility_perf_row:
  assumes "row \<in> set (facility_perf df)"
  defines "g \<equiv> filter (\<lambda>r. fac_FACILITY_ID r = fp_FACILITY_ID row) df"
  shows "g \<noteq> []"
    and "fp_TOTAL_POWER_KW row = sum_list (map fac_TOTAL_POWER_KW g)"
    and "fp_AVG_TEMP_C row = Num (sum_list (map fac_AVG_TEMP_C g) / real (length g))"
    and "fp_RACKS_ACTIVE row
           = Num (sum_list (map (\<lambda>r. real_of_int (fac_RACKS_ACTIVE r)) g) / real (length g))"
    and "fp_PUE row = Num (sum_list (map fac_PUE g) / real (length g))"
proof -
  from assms(1) obtain k g' where kg: "(k, g') \<in> set (groupby fac_FACILITY_ID df)"
    and row: "row = with_avg_power_per_rack
           \<lparr>agg_FACILITY_ID = k,
             agg_TOTAL_POWER_KW = sum_list (map fac_TOTAL_POWER_KW g'),
             agg_AVG_TEMP_C = mean (map fac_AVG_TEMP_C g'),
             agg_RACKS_ACTIVE = mean (map (\<lambda>r. real_of_int (fac_RACKS_ACTIVE r)) g'),
             agg_PUE = mean (map fac_PUE g')\<rparr>"
    by (auto simp: facility_perf_def facility_agg_def)
  from row have k: "fp_FACILITY_ID row = k" by (simp add: with_avg_power_per_rack_def)
  from groupby_group [OF kg] have g': "g' = g" "g' \<noteq> []" by (simp_all add: g_def k)
  from g' show "g \<noteq> []" by simp
  from row g' show "fp_TOTAL_POWER_KW row = sum_list (map fac_TOTAL_POWER_KW g)"
    by (simp add: with_avg_power_per_rack_def)
  from row g' show "fp_AVG_TEMP_C row = Num (sum_list (map fac_AVG_TEMP_C g) / real (length g))"
    by (simp add: with_avg_power_per_rack_def mean_def)
  from row g' show "fp_RACKS_ACTIVE row
           = Num (sum_list (map (\<lambda>r. real_of_int (fac_RACKS_ACTIVE r)) g) / real (length g))"
    by (simp add: with_avg_power_per_rack_def mean_def)
  from row g' show "fp_PUE row = Num (sum_list (map fac_PUE g) / real (length g))"
    by (simp add: with_avg_power_per_rack_def mean_def)
qed

lemma kpi_summary_row:
  assumes "row \<in> set (kpi_summary df)"
  defines "g \<equiv> filter (\<lambda>r. rack_FACILITY_ID r = kpi_FACILITY_ID row) df"
  shows "g \<noteq> []"
    and "kpi_avg_temp row = Num (sum_list (map rack_AVG_TEMP_C g) / real (length g))"
    and "kpi_avg_power row = Num (sum_list (map rack_AVG_POWER_KW g) / real (length g))"
    and "kpi_avg_eff row = Num (sum_list (map rack_EFFICIENCY g) / real (length g))"
    and "kpi_avg_pue row = Num (sum_list (map rack_PUE g) / real (length g))"
proof -
  from assms(1) obtain k g' where kg: "(k, g') \<in> set (groupby rack_FACILITY_ID df)"
    and row: "row = \<lparr>kpi_FACILITY_ID = k,
             kpi_avg_temp = mean (map rack_AVG_TEMP_C g'),
             kpi_avg_power = mean (map rack_AVG_POWER_KW g'),
             kpi_avg_eff = mean (map rack_EFFICIENCY g'),
             kpi_avg_pue = mean (map rack_PUE g')\<rparr>"
    by (auto simp: kpi_summary_def)
  from row have k: "kpi_FACILITY_ID row = k" by simp
  from groupby_group [OF kg] have g': "g' = g" "g' \<noteq> []" by (simp_all add: g_def k)
  from g' show "g \<noteq> []" by simp
  from row g' show "kpi_avg_temp row = Num (sum_list (map rack_AVG_TEMP_C g) / real (length g))"
    by (simp add: mean_def)
  from row g' show "kpi_avg_power row = Num (sum_list (map rack_AVG_POWER_KW g) / real (length g))"
    by (simp add: mean_def)
  from row g' show "kpi_avg_eff row = Num (sum_list (map rack_EFFICIENCY g) / real (length g))"
    by (simp add: mean_def)
  from row g' show "kpi_avg_pue row = Num (sum_list (map rack_PUE g) / real (length g))"
    by (simp add: mean_def)
qed

subsection \<open>Concrete runs\<close>

lemma two_facilities_perf:
  "facility_perf two_facilities =
     [\<lparr>fp_FACILITY_ID = ''F01'', fp_TOTAL_POWER_KW = 30, fp_AVG_TEMP_C = Num 15,
       fp_RACKS_ACTIVE = Num 15, fp_PUE = Num 15, fp_AVG_POWER_PER_RACK = Num 2\<rparr>,
      \<lparr>fp_FACILITY_ID = ''F02'', fp_TOTAL_POWER_KW = 70, fp_AVG_TEMP_C = Num 35,
       fp_RACKS_ACTIVE = Num 35, fp_PUE = Num 35, fp_AVG_POWER_PER_RACK = Num 2\<rparr>]"
  by (simp add: two_facilities_def facility_perf_def facility_agg_def groupby_def mean_def
      fac_example_def with_avg_power_per_rack_def avg_power_per_rack_def)

lemma two_rack_facilities_kpi:
  "kpi_summary two_rack_facilities =
     [\<lparr>kpi_FACILITY_ID = ''F01'', kpi_avg_temp = Num 15, kpi_avg_power = Num 15,
       kpi_avg_eff = Num 0.9, kpi_avg_pue = Num 1.5\<rparr>,
      \<lparr>kpi_FACILITY_ID = ''F02'', kpi_avg_temp = Num 35, kpi_avg_power = Num 35,
       kpi_avg_eff = Num 0.9, kpi_avg_pue = Num 1.5\<rparr>]"
  by (simp add: two_rack_facilities_def kpi_summary_def groupby_def mean_def rack_example_def)

lemma four_days_filtered:
  "df_rack_filter [1, 2] four_days
     = Inr [rack_example ''F01'' 86400000000000 35 0.9, rack_example ''F01'' 172800000000000 20 0.9]"
  by (simp add: df_rack_filter_def date_bounds_def to_datetime_def between_def four_days_def
      rack_example_def)

section \<open>Properties\<close>

text \<open>
  C1. \<^verbatim>\<open>classify_efficiency\<close> is a total function of one float: a number below 1.3 is
  rated Excellent, one in [1.3, 1.6) Good, one in [1.6, 2.0) Moderate and one from 2.0
  upwards Poor; the six boundary values 1.2999, 1.3, 1.5999, 1.6, 1.9999 and 2.0 get
  Excellent, Good, Good, Moderate, Moderate and Poor. Every float has one of the four
  ratings (NaN, which lies in none of the ranges, falls through to Poor).
\<close>

theorem classify_efficiency_ranges:
  "(v < 1.3 \<longrightarrow> classify_efficiency (Num v) = ''Excellent'')
   \<and> (1.3 \<le> v \<and> v < 1.6 \<longrightarrow> classify_efficiency (Num v) = ''Good'')
   \<and> (1.6 \<le> v \<and> v < 2.0 \<longrightarrow> classify_efficiency (Num v) = ''Moderate'')
   \<and> (2.0 \<le> v \<longrightarrow> classify_efficiency (Num v) = ''Poor'')
   \<and> classify_efficiency (Num 1.2999) = ''Excellent''
   \<and> classify_efficiency (Num 1.3) = ''Good''
   \<and> classify_efficiency (Num 1.5999) = ''Good''
   \<and> classify_efficiency (Num 1.6) = ''Moderate''
   \<and> classify_efficiency (Num 1.9999) = ''Moderate''
   \<and> classify_efficiency (Num 2.0) = ''Poor''
   \<and> classify_efficiency pue \<in> {''Excellent'', ''Good'', ''Moderate'', ''Poor''}"
  by (simp add: classify_efficiency_def)

theorem classify_efficiency_ranges_witness:
  "(1.45::real) < 1.6 \<and> classify_efficiency (Num 1.45) = ''Good''
   \<and> classify_efficiency NA \<in> {''Excellent'', ''Good'', ''Moderate'', ''Poor''}"
  using classify_efficiency_ranges [of "1.45" NA] by simp

text \<open>
  C2. A row of the date-filtered rack table appears in the alerts table exactly when
  its temperature is above 30 or its efficiency is below 0.62. A row with temperature
  35 and efficiency 0.9 is flagged, one with 20 and 0.5 is flagged, one with 20 and
  0.9 is not.
\<close>

theorem alerts_iff_anomalous:
  "(df_rack_filter [s, e] df_rack = Inr df \<and> r \<in> set df \<longrightarrow>
      (alert_columns r \<in> set (alerts df)) = (rack_AVG_TEMP_C r > 30 \<or> rack_EFFICIENCY r < 0.62))
   \<and> alerts [r\<lparr>rack_AVG_TEMP_C := 35, rack_EFFICIENCY := 0.9\<rparr>]
       = [alert_columns (r\<lparr>rack_AVG_TEMP_C := 35, rack_EFFICIENCY := 0.9\<rparr>)]
   \<and> alerts [r\<lparr>rack_AVG_TEMP_C := 20, rack_EFFICIENCY := 0.5\<rparr>]
       = [alert_columns (r\<lparr>rack_AVG_TEMP_C := 20, rack_EFFICIENCY := 0.5\<rparr>)]
   \<and> alerts [r\<lparr>rack_AVG_TEMP_C := 20, rack_EFFICIENCY := 0.9\<rparr>] = []"
proof -
  have "(alert_columns r \<in> set (alerts df)) = (rack_AVG_TEMP_C r > 30 \<or> rack_EFFICIENCY r < 0.62)"
    if "r \<in> set df" for df
  proof
    assume "alert_columns r \<in> set (alerts df)"
    then obtain r' where r': "alert_columns r' = alert_columns r"
        "rack_AVG_TEMP_C r' > 30 \<or> rack_EFFICIENCY r' < 0.62"
      by (auto simp: alerts_def)
    from r'(1) have "rack_AVG_TEMP_C r' = rack_AVG_TEMP_C r" "rack_EFFICIENCY r' = rack_EFFICIENCY r"
      by (simp_all add: alert_columns_def)
    with r'(2) show "rack_AVG_TEMP_C r > 30 \<or> rack_EFFICIENCY r < 0.62" by simp
  next
    assume "rack_AVG_TEMP_C r > 30 \<or> rack_EFFICIENCY r < 0.62"
    with that show "alert_columns r \<in> set (alerts df)"
      by (auto simp: alerts_def)
  qed
  then show ?thesis by (simp add: alerts_def)
qed

theorem alerts_iff_anomalous_witness:
  "df_rack_filter [1, 2] four_days
     = Inr [rack_example ''F01'' 86400000000000 35 0.9, rack_example ''F01'' 172800000000000 20 0.9]
   \<and> alert_columns (rack_example ''F01'' 86400000000000 35 0.9)
       \<in> set (alerts [rack_example ''F01'' 86400000000000 35 0.9,
                      rack_example ''F01'' 172800000000000 20 0.9])
   \<and> alert_columns (rack_example ''F01'' 172800000000000 20 0.9)
       \<notin> set (alerts [rack_example ''F01'' 86400000000000 35 0.9,
                      rack_example ''F01'' 172800000000000 20 0.9])"
proof -
  let ?a = "rack_example ''F01'' 86400000000000 35 0.9"
  let ?b = "rack_example ''F01'' 172800000000000 20 0.9"
  have a: "alert_columns ?a \<in> set (alerts [?a, ?b])"
    using alerts_iff_anomalous [where s = 1 and e = 2 and df_rack = four_days
        and df = "[?a, ?b]" and r = ?a] four_days_filtered
    by (simp add: rack_example_def)
  have b: "alert_columns ?b \<notin> set (alerts [?a, ?b])"
    using alerts_iff_anomalous [where s = 1 and e = 2 and df_rack = four_days
        and df = "[?a, ?b]" and r = ?b] four_days_filtered
    by (simp add: rack_example_def)
  from four_days_filtered a b show ?thesis by simp
qed

text \<open>
  C3. The average power per rack is total power over active racks whenever the number
  of active racks is not zero (100 kW over 5 racks is 20.0), and it is the missing value
  when the number is zero: not zero and not an infinity. This holds for each row of
  \<^verbatim>\<open>facility_perf\<close> (whose racks-active cell is a group mean) and for each row of
  \<^verbatim>\<open>df_fac\<close>. The denominator handed to the division is never zero, and neither
  column ever holds an infinity.
\<close>

theorem avg_power_per_rack_guard:
  "(n \<noteq> 0 \<longrightarrow> avg_power_per_rack p (Num n) = Num (p / n))
   \<and> avg_power_per_rack 100 (Num 5) = Num 20.0
   \<and> avg_power_per_rack p (Num 0) = NA
   \<and> avg_power_per_rack p (Num 0) \<notin> {Num 0, PosInf, NegInf}
   \<and> replace_zero_NA c \<noteq> Num 0
   \<and> (\<forall>row \<in> set (facility_perf df).
         \<exists>m. fp_RACKS_ACTIVE row = Num m
           \<and> fp_AVG_POWER_PER_RACK row = (if m = 0 then NA else Num (fp_TOTAL_POWER_KW row / m)))
   \<and> df_fac_AVG_POWER_PER_RACK df =
       map (\<lambda>r. if fac_RACKS_ACTIVE r = 0 then NA
                else Num (fac_TOTAL_POWER_KW r / real_of_int (fac_RACKS_ACTIVE r))) df
   \<and> PosInf \<notin> set (df_fac_AVG_POWER_PER_RACK df) \<and> NegInf \<notin> set (df_fac_AVG_POWER_PER_RACK df)
   \<and> PosInf \<notin> fp_AVG_POWER_PER_RACK ` set (facility_perf df)
   \<and> NegInf \<notin> fp_AVG_POWER_PER_RACK ` set (facility_perf df)"
proof -
  have perf: "\<exists>m. fp_RACKS_ACTIVE row = Num m
           \<and> fp_AVG_POWER_PER_RACK row = (if m = 0 then NA else Num (fp_TOTAL_POWER_KW row / m))"
    if "row \<in> set (facility_perf df)" for row
  proof -
    from that obtain a where a: "a \<in> set (facility_agg df)" "row = with_avg_power_per_rack a"
      by (auto simp: facility_perf_def)
    from facility_agg_RACKS_Num [OF a(1)] obtain m where "agg_RACKS_ACTIVE a = Num m" ..
    with a(2) show ?thesis
      by (simp add: with_avg_power_per_rack_def avg_power_per_rack_Num)
  qed
  have col: "df_fac_AVG_POWER_PER_RACK df =
       map (\<lambda>r. if fac_RACKS_ACTIVE r = 0 then NA
                else Num (fac_TOTAL_POWER_KW r / real_of_int (fac_RACKS_ACTIVE r))) df"
    by (simp add: df_fac_AVG_POWER_PER_RACK_def avg_power_per_rack_Num)
  have inf1: "PosInf \<notin> set (df_fac_AVG_POWER_PER_RACK df)" "NegInf \<notin> set (df_fac_AVG_POWER_PER_RACK df)"
    unfolding col by auto
  have inf2: "PosInf \<notin> fp_AVG_POWER_PER_RACK ` set (facility_perf df)"
      "NegInf \<notin> fp_AVG_POWER_PER_RACK ` set (facility_perf df)"
    using perf by (force split: if_splits)+
  have nz: "replace_zero_NA c \<noteq> Num 0"
    by (cases c) simp_all
  show ?thesis
    using perf col inf1 inf2 nz by (simp add: avg_power_per_rack_Num)
qed

theorem avg_power_per_rack_guard_witness:
  "(5::real) \<noteq> 0 \<and> avg_power_per_rack 100 (Num 5) = Num (100 / 5)
   \<and> facility_perf [fac_example ''F01'' 0 100 0, fac_example ''F01'' 1 50 0]
       = [\<lparr>fp_FACILITY_ID = ''F01'', fp_TOTAL_POWER_KW = 150, fp_AVG_TEMP_C = Num 75,
           fp_RACKS_ACTIVE = Num 0, fp_PUE = Num 75, fp_AVG_POWER_PER_RACK = NA\<rparr>]
   \<and> df_fac_AVG_POWER_PER_RACK [fac_example ''F01'' 0 100 0, fac_example ''F01'' 1 100 5]
       = [NA, Num 20]"
proof -
  let ?df = "[fac_example ''F01'' 0 100 0, fac_example ''F01'' 1 50 0]"
  have v: "facility_perf ?df
       = [\<lparr>fp_FACILITY_ID = ''F01'', fp_TOTAL_POWER_KW = 150, fp_AVG_TEMP_C = Num 75,
           fp_RACKS_ACTIVE = Num 0, fp_PUE = Num 75, fp_AVG_POWER_PER_RACK = NA\<rparr>]"
    by (simp add: facility_perf_def facility_agg_def groupby_def mean_def fac_example_def
        with_avg_power_per_rack_def avg_power_per_rack_def)
  have c: "df_fac_AVG_POWER_PER_RACK [fac_example ''F01'' 0 100 0, fac_example ''F01'' 1 100 5]
       = [NA, Num 20]"
    using avg_power_per_rack_guard
      [where df = "[fac_example ''F01'' 0 100 0, fac_example ''F01'' 1 100 5]"]
    by (simp add: fac_example_def)
  show ?thesis
    using avg_power_per_rack_guard [where n = 5 and p = 100 and df = ?df] v c by simp
qed

text \<open>
  C4. With a pair of picked dates, each tab's date filter keeps exactly the rows whose
  time window \<open>t\<close> satisfies \<open>to_datetime start \<le> t \<le> to_datetime end\<close>, in their order
  (in tab 1 among the rows of the selected datacenters, in tab 2 among the rows that
  passed the entity filter). Both bounds are inclusive: a row at the start date and a
  row at the end date are kept, a row before the start or after the end is dropped. The
  bounds are the midnights that open the two dates, so a row later on the end date is after the end.
\<close>

theorem date_range_filter_inclusive:
  "df_rack_filter [s, e] df_rack =
     Inr (filter (\<lambda>r. to_datetime s \<le> rack_TIME_WINDOW r \<and> rack_TIME_WINDOW r \<le> to_datetime e) df_rack)
   \<and> df_fac_filter sel [s, e] df_fac =
     Inr (filter (\<lambda>r. to_datetime s \<le> fac_TIME_WINDOW r \<and> fac_TIME_WINDOW r \<le> to_datetime e)
            (entity_filter sel df_fac))
   \<and> df_dc_filter selected_dc [s, e] df_dc =
     Inr (filter (\<lambda>r. dc_DATACENTER_ID r \<in> set selected_dc
                     \<and> to_datetime s \<le> dc_TIME_WINDOW r \<and> dc_TIME_WINDOW r \<le> to_datetime e) df_dc)
   \<and> (df_rack_filter [s, e] df_rack = Inr out \<longrightarrow>
        (r \<in> set out \<longleftrightarrow>
           r \<in> set df_rack \<and> to_datetime s \<le> rack_TIME_WINDOW r \<and> rack_TIME_WINDOW r \<le> to_datetime e)
        \<and> (s \<le> e \<and> r \<in> set df_rack
             \<and> (rack_TIME_WINDOW r = to_datetime s \<or> rack_TIME_WINDOW r = to_datetime e)
           \<longrightarrow> r \<in> set out)
        \<and> (rack_TIME_WINDOW r < to_datetime s \<or> to_datetime e < rack_TIME_WINDOW r \<longrightarrow> r \<notin> set out))"
proof -
  have mono: "to_datetime s \<le> to_datetime e" if "s \<le> e"
    using that by (simp add: to_datetime_def)
  show ?thesis
    using mono
    by (auto simp: df_rack_filter_def df_fac_filter_def df_dc_filter_def date_bounds_pair
        date_filter_def between_def isin_def)
qed

theorem date_range_filter_inclusive_witness:
  "(1::int) \<le> 2
   \<and> df_rack_filter [1, 2] four_days
       = Inr [rack_example ''F01'' 86400000000000 35 0.9, rack_example ''F01'' 172800000000000 20 0.9]
   \<and> rack_TIME_WINDOW (rack_example ''F01'' 86400000000000 35 0.9) = to_datetime 1
   \<and> rack_TIME_WINDOW (rack_example ''F01'' 172800000000000 20 0.9) = to_datetime 2
   \<and> rack_example ''F01'' 172800000000000 20 0.9 \<in> set four_days
   \<and> rack_example ''F01'' 172800000000000 20 0.9
       \<in> set [rack_example ''F01'' 86400000000000 35 0.9, rack_example ''F01'' 172800000000000 20 0.9]
   \<and> to_datetime 2 < rack_TIME_WINDOW (rack_example ''F01'' 172800000000001 20 0.5)
   \<and> rack_example ''F01'' 172800000000001 20 0.5
       \<notin> set [rack_example ''F01'' 86400000000000 35 0.9, rack_example ''F01'' 172800000000000 20 0.9]"
proof -
  let ?out = "[rack_example ''F01'' 86400000000000 35 0.9, rack_example ''F01'' 172800000000000 20 0.9]"
  have "rack_example ''F01'' 172800000000000 20 0.9 \<in> set ?out"
    using date_range_filter_inclusive [where s = 1 and e = 2 and df_rack = four_days
        and out = ?out and r = "rack_example ''F01'' 172800000000000 20 0.9"] four_days_filtered
    by (simp add: four_days_def to_datetime_def rack_example_def)
  moreover have "rack_example ''F01'' 172800000000001 20 0.5 \<notin> set ?out"
    using date_range_filter_inclusive [where s = 1 and e = 2 and df_rack = four_days
        and out = ?out and r = "rack_example ''F01'' 172800000000001 20 0.5"] four_days_filtered
    by (simp add: four_days_def to_datetime_def rack_example_def)
  ultimately show ?thesis
    using four_days_filtered by (simp add: four_days_def to_datetime_def rack_example_def)
qed

text \<open>
  C5. The facility performance table has exactly one row per distinct facility key of
  its input, the keys in ascending order; the row of a key holds the sum of the power
  cells of that key's rows and the arithmetic means (sum over count, the count never
  zero) of their temperature, active-racks and PUE cells. The KPI summary of tab 3 is
  grouped in the same way, with four means. For two facilities with values 10, 20 and
  30, 40 the sums are 30 and 70 and the means 15 and 35.
\<close>

theorem facility_perf_group_by:
  "map fp_FACILITY_ID (facility_perf df) = sort (remdups (map fac_FACILITY_ID df))
   \<and> distinct (map fp_FACILITY_ID (facility_perf df))
   \<and> fp_FACILITY_ID ` set (facility_perf df) = fac_FACILITY_ID ` set df
   \<and> (\<forall>row \<in> set (facility_perf df).
        let g = filter (\<lambda>r. fac_FACILITY_ID r = fp_FACILITY_ID row) df
        in g \<noteq> []
         \<and> fp_TOTAL_POWER_KW row = sum_list (map fac_TOTAL_POWER_KW g)
         \<and> fp_AVG_TEMP_C row = Num (sum_list (map fac_AVG_TEMP_C g) / real (length g))
         \<and> fp_RACKS_ACTIVE row
             = Num (sum_list (map (\<lambda>r. real_of_int (fac_RACKS_ACTIVE r)) g) / real (length g))
         \<and> fp_PUE row = Num (sum_list (map fac_PUE g) / real (length g)))
   \<and> map kpi_FACILITY_ID (kpi_summary df3) = sort (remdups (map rack_FACILITY_ID df3))
   \<and> (\<forall>row \<in> set (kpi_summary df3).
        let g = filter (\<lambda>r. rack_FACILITY_ID r = kpi_FACILITY_ID row) df3
        in g \<noteq> []
         \<and> kpi_avg_temp row = Num (sum_list (map rack_AVG_TEMP_C g) / real (length g))
         \<and> kpi_avg_power row = Num (sum_list (map rack_AVG_POWER_KW g) / real (length g))
         \<and> kpi_avg_eff row = Num (sum_list (map rack_EFFICIENCY g) / real (length g))
         \<and> kpi_avg_pue row = Num (sum_list (map rack_PUE g) / real (length g)))
   \<and> map (\<lambda>row. (fp_FACILITY_ID row, fp_TOTAL_POWER_KW row, fp_AVG_TEMP_C row,
                  fp_RACKS_ACTIVE row, fp_PUE row)) (facility_perf two_facilities)
       = [(''F01'', 30, Num 15, Num 15, Num 15), (''F02'', 70, Num 35, Num 35, Num 35)]
   \<and> map (\<lambda>row. (kpi_FACILITY_ID row, kpi_avg_power row)) (kpi_summary two_rack_facilities)
       = [(''F01'', Num 15), (''F02'', Num 35)]"
proof -
  have ids: "map fp_FACILITY_ID (facility_perf df) = sort (remdups (map fac_FACILITY_ID df))"
    by (simp only: facility_perf_ids groupby_keys)
  have dist: "distinct (map fp_FACILITY_ID (facility_perf df))"
    by (simp only: facility_perf_ids groupby_distinct)
  have "set (map fp_FACILITY_ID (facility_perf df)) = fac_FACILITY_ID ` set df"
    by (simp only: ids set_sort set_remdups set_map)
  then have keys: "fp_FACILITY_ID ` set (facility_perf df) = fac_FACILITY_ID ` set df"
    by simp
  have kids: "map kpi_FACILITY_ID (kpi_summary df3) = sort (remdups (map rack_FACILITY_ID df3))"
    by (simp only: kpi_summary_ids groupby_keys)
  have ex: "map (\<lambda>row. (fp_FACILITY_ID row, fp_TOTAL_POWER_KW row, fp_AVG_TEMP_C row,
                  fp_RACKS_ACTIVE row, fp_PUE row)) (facility_perf two_facilities)
       = [(''F01'', 30, Num 15, Num 15, Num 15), (''F02'', 70, Num 35, Num 35, Num 35)]"
    by (simp add: two_facilities_perf)
  have kex: "map (\<lambda>row. (kpi_FACILITY_ID row, kpi_avg_power row)) (kpi_summary two_rack_facilities)
       = [(''F01'', Num 15), (''F02'', Num 35)]"
    by (simp add: two_rack_facilities_kpi)
  have rows: "\<forall>row \<in> set (facility_perf df).
        let g = filter (\<lambda>r. fac_FACILITY_ID r = fp_FACILITY_ID row) df
        in g \<noteq> []
         \<and> fp_TOTAL_POWER_KW row = sum_list (map fac_TOTAL_POWER_KW g)
         \<and> fp_AVG_TEMP_C row = Num (sum_list (map fac_AVG_TEMP_C g) / real (length g))
         \<and> fp_RACKS_ACTIVE row
             = Num (sum_list (map (\<lambda>r. real_of_int (fac_RACKS_ACTIVE r)) g) / real (length g))
         \<and> fp_PUE row = Num (sum_list (map fac_PUE g) / real (length g))"
    unfolding Let_def by (intro ballI conjI) (erule facility_perf_row)+
  have krows: "\<forall>row \<in> set (kpi_summary df3).
        let g = filter (\<lambda>r. rack_FACILITY_ID r = kpi_FACILITY_ID row) df3
        in g \<noteq> []
         \<and> kpi_avg_temp row = Num (sum_list (map rack_AVG_TEMP_C g) / real (length g))
         \<and> kpi_avg_power row = Num (sum_list (map rack_AVG_POWER_KW g) / real (length g))
         \<and> kpi_avg_eff row = Num (sum_list (map rack_EFFICIENCY g) / real (length g))
         \<and> kpi_avg_pue row = Num (sum_list (map rack_PUE g) / real (length g))"
    unfolding Let_def by (intro ballI conjI) (erule kpi_summary_row)+
  from ids dist keys rows kids krows ex kex show ?thesis
    by (intro conjI)
qed

theorem facility_perf_group_by_witness:
  "map fp_FACILITY_ID (facility_perf two_facilities) = [''F01'', ''F02'']
   \<and> filter (\<lambda>r. fac_FACILITY_ID r = ''F02'') two_facilities
       = [fac_example ''F02'' 0 30 30, fac_example ''F02'' 1 40 40]
   \<and> fp_TOTAL_POWER_KW (facility_perf two_facilities ! 1) = 30 + 40
   \<and> fp_PUE (facility_perf two_facilities ! 1) = Num ((30 + 40) / 2)"
proof -
  let ?row = "facility_perf two_facilities ! 1"
  let ?g = "filter (\<lambda>r. fac_FACILITY_ID r = fp_FACILITY_ID ?row) two_facilities"
  have m: "?row \<in> set (facility_perf two_facilities)"
    by (simp add: two_facilities_perf)
  have g: "?g = [fac_example ''F02'' 0 30 30, fac_example ''F02'' 1 40 40]"
    by (simp add: two_facilities_perf) (simp add: two_facilities_def fac_example_def)
  from facility_perf_group_by [of two_facilities two_rack_facilities]
  have ids: "map fp_FACILITY_ID (facility_perf two_facilities)
               = sort (remdups (map fac_FACILITY_ID two_facilities))"
    and rows: "\<forall>row \<in> set (facility_perf two_facilities).
        let g = filter (\<lambda>r. fac_FACILITY_ID r = fp_FACILITY_ID row) two_facilities
        in g \<noteq> []
         \<and> fp_TOTAL_POWER_KW row = sum_list (map fac_TOTAL_POWER_KW g)
         \<and> fp_AVG_TEMP_C row = Num (sum_list (map fac_AVG_TEMP_C g) / real (length g))
         \<and> fp_RACKS_ACTIVE row
             = Num (sum_list (map (\<lambda>r. real_of_int (fac_RACKS_ACTIVE r)) g) / real (length g))
         \<and> fp_PUE row = Num (sum_list (map fac_PUE g) / real (length g))"
    by blast+
  from bspec [OF rows m] have
    "fp_TOTAL_POWER_KW ?row = sum_list (map fac_TOTAL_POWER_KW ?g)"
    "fp_PUE ?row = Num (sum_list (map fac_PUE ?g) / real (length ?g))"
    unfolding Let_def by blast+
  then have v: "fp_TOTAL_POWER_KW ?row = 30 + 40" "fp_PUE ?row = Num ((30 + 40) / 2)"
    unfolding g by (simp_all add: fac_example_def)
  have k: "map fp_FACILITY_ID (facility_perf two_facilities) = [''F01'', ''F02'']"
    unfolding ids by (simp add: two_facilities_def fac_example_def)
  have g2: "filter (\<lambda>r. fac_FACILITY_ID r = ''F02'') two_facilities
       = [fac_example ''F02'' 0 30 30, fac_example ''F02'' 1 40 40]"
    by (simp add: two_facilities_def fac_example_def)
  from k g2 v show ?thesis by (intro conjI)
qed

text \<open>
  C6, as stated: when the filters leave no rows, the axis bounds of the rack trend
  charts of tab 3 are the minimum and maximum of an empty column. They are not: on the
  empty frame the four bounds are the constants of the \<^verbatim>\<open>if len(df_fac_filtered)\<close>
  guard, while the minimum and maximum of an empty column are NaN. A run of tab 3 on
  a table with rows, with every facility deselected, shows it.
\<close>

theorem rack_trend_empty_guard_counterexample:
  "temp_min [] = Num 0 \<and> temp_max [] = Num 1 \<and> eff_min [] = Num 0 \<and> eff_max [] = Num 1
   \<and> series_min [] = NA \<and> series_max [] = NA
   \<and> temp_min [] \<noteq> series_min [] \<and> temp_max [] \<noteq> series_max []
   \<and> eff_min [] \<noteq> series_min [] \<and> eff_max [] \<noteq> series_max []
   \<and> map_sum id rt_df_fac_filtered (run_tab3 [0, 1] [] two_rack_facilities) = Inr []
   \<and> map_sum id rt_temp_domain (run_tab3 [0, 1] [] two_rack_facilities) = Inr (Num (- 1), Num 2)
   \<and> map_sum id rt_eff_domain (run_tab3 [0, 1] [] two_rack_facilities)
       = Inr (Num (- 0.05), Num 1.05)"
  by (simp add: temp_min_def temp_max_def eff_min_def eff_max_def series_min_def series_max_def
      run_tab3_def date_input_default_def two_rack_facilities_def
      rack_tab_def df_rack_filter_def date_bounds_def df_fac_filtered_def isin_def
      rack_temp_domain_def rack_eff_domain_def)

text \<open>
  C6, amended. When a run of tab 2 gets as far as the charts with no rows left, it is
  the date range that has emptied the frame (the entity selection left rows), and the
  axis bounds of the power-per-rack chart (and of the temperature line layered on it)
  are minimum and maximum of an empty column, taken without a guard: both bounds are
  NaN. When a run of tab 3 leaves no rows for the rack trend charts, they do not
  evaluate a minimum or maximum: the guard supplies 0.0 and 1.0, and the axis domains
  are [-1, 2] and [-0.05, 1.05]. On a frame with rows the bounds of tab 3 are the
  column's minimum and maximum.
\<close>

theorem empty_frame_axis_domains:
  "(run_tab2 sel [s, e] df_fac = Inr fout \<and> ft_df_fac fout = [] \<longrightarrow>
      entity_filter sel df_fac \<noteq> []
      \<and> date_filter (to_datetime s) (to_datetime e) (entity_filter sel df_fac) = []
      \<and> ft_power_chart_domain fout = (NA, NA) \<and> ft_temp_chart_domain fout = (NA, NA))
   \<and> (run_tab3 [s, e] selected_facilities df_rack = Inr rout \<and> rt_df_fac_filtered rout = [] \<longrightarrow>
      df_rack \<noteq> []
      \<and> rt_temp_domain rout = (Num (- 1), Num 2) \<and> rt_eff_domain rout = (Num (- 0.05), Num 1.05))
   \<and> (df \<noteq> [] \<longrightarrow>
        temp_min df = series_min (map (\<lambda>r. Num (rack_AVG_TEMP_C r)) df)
      \<and> temp_max df = series_max (map (\<lambda>r. Num (rack_AVG_TEMP_C r)) df)
      \<and> eff_min df = series_min (map (\<lambda>r. Num (rack_EFFICIENCY r)) df)
      \<and> eff_max df = series_max (map (\<lambda>r. Num (rack_EFFICIENCY r)) df))"
proof -
  have t2: "entity_filter sel df_fac \<noteq> []
      \<and> date_filter (to_datetime s) (to_datetime e) (entity_filter sel df_fac) = []
      \<and> ft_power_chart_domain fout = (NA, NA) \<and> ft_temp_chart_domain fout = (NA, NA)"
    if run: "run_tab2 sel [s, e] df_fac = Inr fout" and none: "ft_df_fac fout = []"
  proof -
    from run have ne: "entity_filter sel df_fac \<noteq> []"
      by (auto simp: run_tab2_def date_input_default_def split: list.splits)
    with run have tab: "facility_tab sel [s, e] df_fac = Inr fout"
      by (auto simp: run_tab2_def date_input_default_def split: list.splits)
    then have out: "ft_df_fac fout = date_filter (to_datetime s) (to_datetime e) (entity_filter sel df_fac)"
        "ft_power_chart_domain fout = power_chart_domain (ft_df_fac fout)"
        "ft_temp_chart_domain fout = temp_chart_domain (ft_df_fac fout)"
      by (auto simp: facility_tab_def date_bounds_pair Let_def)
    with ne none show ?thesis
      by (simp add: power_chart_domain_def temp_chart_domain_def df_fac_AVG_POWER_PER_RACK_def
          series_min_def series_max_def)
  qed
  have t3: "df_rack \<noteq> []
      \<and> rt_temp_domain rout = (Num (- 1), Num 2) \<and> rt_eff_domain rout = (Num (- 0.05), Num 1.05)"
    if run: "run_tab3 [s, e] selected_facilities df_rack = Inr rout"
      and none: "rt_df_fac_filtered rout = []"
  proof -
    from run have ne: "df_rack \<noteq> []"
      by (auto simp: run_tab3_def date_input_default_def split: list.splits)
    with run have "rack_tab [s, e] selected_facilities df_rack = Inr rout"
      by (auto simp: run_tab3_def date_input_default_def split: list.splits)
    then have "rt_temp_domain rout = rack_temp_domain (rt_df_fac_filtered rout)"
        "rt_eff_domain rout = rack_eff_domain (rt_df_fac_filtered rout)"
      by (auto simp: rack_tab_def Let_def split: sum.splits)
    with ne none show ?thesis
      by (simp add: rack_temp_domain_def rack_eff_domain_def temp_min_def temp_max_def
          eff_min_def eff_max_def)
  qed
  have ne: "temp_min df = series_min (map (\<lambda>r. Num (rack_AVG_TEMP_C r)) df)
      \<and> temp_max df = series_max (map (\<lambda>r. Num (rack_AVG_TEMP_C r)) df)
      \<and> eff_min df = series_min (map (\<lambda>r. Num (rack_EFFICIENCY r)) df)
      \<and> eff_max df = series_max (map (\<lambda>r. Num (rack_EFFICIENCY r)) df)" if "df \<noteq> []"
    using that by (simp add: temp_min_def temp_max_def eff_min_def eff_max_def)
  from t2 t3 ne show ?thesis by blast
qed

theorem empty_frame_axis_domains_witness:
  "run_tab2 (Facility [''F01'', ''F02'']) [5, 6] two_facilities
     = Inr \<lparr>ft_df_fac = [], ft_facility_perf = [],
            ft_power_chart_domain = (NA, NA), ft_temp_chart_domain = (NA, NA)\<rparr>
   \<and> entity_filter (Facility [''F01'', ''F02'']) two_facilities = two_facilities
   \<and> map_sum id rt_df_fac_filtered (run_tab3 [0, 1] [] two_rack_facilities) = Inr []
   \<and> map_sum id rt_temp_domain (run_tab3 [0, 1] [] two_rack_facilities) = Inr (Num (- 1), Num 2)
   \<and> map_sum id rt_eff_domain (run_tab3 [0, 1] [] two_rack_facilities)
       = Inr (Num (- 0.05), Num 1.05)
   \<and> temp_min two_rack_facilities = Num 10 \<and> temp_max two_rack_facilities = Num 40"
proof -
  have ef: "entity_filter (Facility [''F01'', ''F02'']) two_facilities = two_facilities"
    by (simp add: isin_def two_facilities_def fac_example_def)
  have df: "date_filter (to_datetime 5) (to_datetime 6) two_facilities = []"
    by (simp add: date_filter_def to_datetime_def between_def two_facilities_def fac_example_def)
  have dflt: "date_input_default (map fac_TIME_WINDOW two_facilities) = Inr [0, 0]"
    by (simp add: date_input_default_def date_of_def two_facilities_def fac_example_def)
  obtain fout where o2: "run_tab2 (Facility [''F01'', ''F02'']) [5, 6] two_facilities = Inr fout"
      "ft_df_fac fout = []" "ft_facility_perf fout = []"
    by (simp add: run_tab2_def facility_tab_def date_bounds_pair Let_def ef df dflt
        del: entity_filter.simps)
      (simp add: date_filter_def facility_perf_def facility_agg_def groupby_def)
  obtain rout where o3: "run_tab3 [0, 1] [] two_rack_facilities = Inr rout"
      "rt_df_fac_filtered rout = []"
    by (simp add: run_tab3_def date_input_default_def two_rack_facilities_def
        rack_tab_def df_rack_filter_def date_bounds_def df_fac_filtered_def isin_def Let_def)
  have ne: "two_rack_facilities \<noteq> []" by (simp add: two_rack_facilities_def)
  note inst = empty_frame_axis_domains [where sel = "Facility [''F01'', ''F02'']" and s = 5
      and e = 6 and df_fac = two_facilities and fout = fout and selected_facilities = "[]"
      and df_rack = two_rack_facilities and rout = rout and df = two_rack_facilities]
  note inst3 = empty_frame_axis_domains [where s = 0 and e = 1 and selected_facilities = "[]"
      and df_rack = two_rack_facilities and rout = rout]
  from inst o2 have d2: "ft_power_chart_domain fout = (NA, NA)" "ft_temp_chart_domain fout = (NA, NA)"
    by blast+
  from inst3 o3 have d3: "rt_temp_domain rout = (Num (- 1), Num 2)"
      "rt_eff_domain rout = (Num (- 0.05), Num 1.05)"
    by blast+
  from inst ne have "temp_min two_rack_facilities
        = series_min (map (\<lambda>r. Num (rack_AVG_TEMP_C r)) two_rack_facilities)"
      "temp_max two_rack_facilities
        = series_max (map (\<lambda>r. Num (rack_AVG_TEMP_C r)) two_rack_facilities)"
    by blast+
  then have mm: "temp_min two_rack_facilities = Num 10" "temp_max two_rack_facilities = Num 40"
    by (simp_all add: two_rack_facilities_def rack_example_def series_min_def series_max_def)
  from o2 d2 have "fout = \<lparr>ft_df_fac = [], ft_facility_perf = [],
            ft_power_chart_domain = (NA, NA), ft_temp_chart_domain = (NA, NA)\<rparr>"
    by simp
  with o2(1) o3 d3 mm ef show ?thesis by simp
qed

text \<open>
  C7. With a pair of picked dates the rack tab runs to the end. When no row of the
  date-filtered rack table is anomalous, the page shows the message ``No anomalies
  detected for the selected date range.'' in place of the alerts table; when at least
  one row is anomalous, it shows the alerts table, which is then not empty and holds
  the alert rows.
\<close>

theorem no_anomalies_message:
  "\<exists>out df. rack_tab [s, e] sel df_rack = Inr out \<and> df_rack_filter [s, e] df_rack = Inr df
      \<and> ((\<forall>r \<in> set df. \<not> (rack_AVG_TEMP_C r > 30 \<or> rack_EFFICIENCY r < 0.62)) \<longrightarrow>
            rt_alerts out = Info ''No anomalies detected for the selected date range.'')
      \<and> ((\<exists>r \<in> set df. rack_AVG_TEMP_C r > 30 \<or> rack_EFFICIENCY r < 0.62) \<longrightarrow>
            (\<exists>t. rt_alerts out = Dataframe t \<and> t \<noteq> []
                \<and> set t = set (alerts df) \<and> length t = length (alerts df)))"
proof -
  obtain df where df: "df_rack_filter [s, e] df_rack = Inr df"
    by (simp add: df_rack_filter_def date_bounds_pair)
  let ?out = "\<lparr>rt_alerts = show_alerts (alerts df),
                   rt_kpi_summary = kpi_summary df,
                   rt_df_fac_filtered = df_fac_filtered sel df,
                   rt_temp_domain = rack_temp_domain (df_fac_filtered sel df),
                   rt_eff_domain = rack_eff_domain (df_fac_filtered sel df)\<rparr>"
  have out: "rack_tab [s, e] sel df_rack = Inr ?out"
    by (simp add: rack_tab_def df Let_def)
  have none: "rt_alerts ?out = Info ''No anomalies detected for the selected date range.''"
    if "\<forall>r \<in> set df. \<not> (rack_AVG_TEMP_C r > 30 \<or> rack_EFFICIENCY r < 0.62)"
  proof -
    from that have "alerts df = []"
      by (auto simp: alerts_def filter_empty_conv)
    then show ?thesis by (simp add: show_alerts_def)
  qed
  have some: "\<exists>t. rt_alerts ?out = Dataframe t \<and> t \<noteq> []
                \<and> set t = set (alerts df) \<and> length t = length (alerts df)"
    if "\<exists>r \<in> set df. rack_AVG_TEMP_C r > 30 \<or> rack_EFFICIENCY r < 0.62"
  proof -
    from that have ne: "alerts df \<noteq> []"
      by (auto simp: alerts_def filter_empty_conv)
    then have "sort_key (\<lambda>a. - al_TIME_WINDOW a) (alerts df) \<noteq> []"
      by (metis length_sort length_0_conv)
    with ne show ?thesis by (simp add: show_alerts_def)
  qed
  from df out none some show ?thesis by blast
qed

theorem no_anomalies_message_witness:
  "map_sum id rt_alerts (rack_tab [2, 2] [''F01''] four_days)
     = Inr (Info ''No anomalies detected for the selected date range.'')
   \<and> map_sum id rt_alerts (rack_tab [1, 2] [''F01''] four_days)
     = Inr (Dataframe [alert_columns (rack_example ''F01'' 86400000000000 35 0.9)])"
proof -
  have f22: "df_rack_filter [2, 2] four_days = Inr [rack_example ''F01'' 172800000000000 20 0.9]"
    by (simp add: df_rack_filter_def date_bounds_def to_datetime_def between_def four_days_def
        rack_example_def)
  from no_anomalies_message [of 2 2 "[''F01'']" four_days] obtain out
    where out: "rack_tab [2, 2] [''F01''] four_days = Inr out"
      and none: "(\<forall>r \<in> set [rack_example ''F01'' 172800000000000 20 0.9].
                   \<not> (rack_AVG_TEMP_C r > 30 \<or> rack_EFFICIENCY r < 0.62)) \<longrightarrow>
            rt_alerts out = Info ''No anomalies detected for the selected date range.''"
    unfolding f22 by auto
  from none have "rt_alerts out = Info ''No anomalies detected for the selected date range.''"
    by (simp add: rack_example_def)
  with out have a: "map_sum id rt_alerts (rack_tab [2, 2] [''F01''] four_days)
     = Inr (Info ''No anomalies detected for the selected date range.'')"
    by simp
  have b: "map_sum id rt_alerts (rack_tab [1, 2] [''F01''] four_days)
     = Inr (Dataframe [alert_columns (rack_example ''F01'' 86400000000000 35 0.9)])"
    by (simp add: rack_tab_def four_days_filtered Let_def alerts_def show_alerts_def)
      (simp add: rack_example_def)
  from a b show ?thesis ..
qed

text \<open>
  C9. The facility performance summary of tab 2 is aggregated from the frame that the
  datacenter/facility filter and the date filter have both narrowed, so the entity
  selection changes the summary: there are two facility selections that give different
  summary tables on the same data and date range.
\<close>

theorem summary_follows_entity_filter:
  "(\<exists>out. facility_tab sel [s, e] df_fac = Inr out
       \<and> ft_facility_perf out =
           facility_perf (date_filter (to_datetime s) (to_datetime e) (entity_filter sel df_fac)))
   \<and> (\<exists>out1 out2.
         facility_tab (Facility [''F01'']) [0, 1] two_facilities = Inr out1
       \<and> facility_tab (Facility [''F01'', ''F02'']) [0, 1] two_facilities = Inr out2
       \<and> map fp_FACILITY_ID (ft_facility_perf out1) = [''F01'']
       \<and> map fp_FACILITY_ID (ft_facility_perf out2) = [''F01'', ''F02'']
       \<and> ft_facility_perf out1 \<noteq> ft_facility_perf out2)"
proof -
  have perf: "\<exists>out. facility_tab sel [s, e] df_fac = Inr out
       \<and> ft_facility_perf out =
           facility_perf (date_filter (to_datetime s) (to_datetime e) (entity_filter sel df_fac))"
    for sel s e df_fac
    by (simp add: facility_tab_def date_bounds_pair Let_def date_filter_idem)
  have f1: "date_filter (to_datetime 0) (to_datetime 1) (entity_filter (Facility [''F01'']) two_facilities)
      = [fac_example ''F01'' 0 10 10, fac_example ''F01'' 1 20 20]"
    by (simp add: date_filter_def to_datetime_def between_def isin_def fac_example_def
        two_facilities_def)
  have f2: "date_filter (to_datetime 0) (to_datetime 1)
        (entity_filter (Facility [''F01'', ''F02'']) two_facilities) = two_facilities"
    by (simp add: date_filter_def to_datetime_def between_def isin_def fac_example_def
        two_facilities_def)
  have k1: "map fp_FACILITY_ID (facility_perf [fac_example ''F01'' 0 10 10, fac_example ''F01'' 1 20 20])
      = [''F01'']"
    by (simp add: facility_perf_ids groupby_keys fac_example_def)
  have k2: "map fp_FACILITY_ID (facility_perf two_facilities) = [''F01'', ''F02'']"
    by (simp add: two_facilities_perf)
  from perf [of "Facility [''F01'']" 0 1 two_facilities] obtain out1
    where o1: "facility_tab (Facility [''F01'']) [0, 1] two_facilities = Inr out1"
      "ft_facility_perf out1 = facility_perf [fac_example ''F01'' 0 10 10, fac_example ''F01'' 1 20 20]"
    unfolding f1 by blast
  from perf [of "Facility [''F01'', ''F02'']" 0 1 two_facilities] obtain out2
    where o2: "facility_tab (Facility [''F01'', ''F02'']) [0, 1] two_facilities = Inr out2"
      "ft_facility_perf out2 = facility_perf two_facilities"
    unfolding f2 by blast
  from o1 o2 k1 k2 have k: "map fp_FACILITY_ID (ft_facility_perf out1) = [''F01'']"
      "map fp_FACILITY_ID (ft_facility_perf out2) = [''F01'', ''F02'']"
    by simp_all
  then have ne: "ft_facility_perf out1 \<noteq> ft_facility_perf out2" by auto
  have "\<exists>out1 out2.
         facility_tab (Facility [''F01'']) [0, 1] two_facilities = Inr out1
       \<and> facility_tab (Facility [''F01'', ''F02'']) [0, 1] two_facilities = Inr out2
       \<and> map fp_FACILITY_ID (ft_facility_perf out1) = [''F01'']
       \<and> map fp_FACILITY_ID (ft_facility_perf out2) = [''F01'', ''F02'']
       \<and> ft_facility_perf out1 \<noteq> ft_facility_perf out2"
    using o1(1) o2(1) k ne by (intro exI conjI)
  with perf [of sel s e df_fac] show ?thesis by (intro conjI)
qed

text \<open>
  C10. In the rack tab the alerts and the KPI summary are built from the date-filtered
  frame before the facility multiselect is applied: for the same table and date range,
  any two facility selections give the same alerts view and the same KPI summary (and
  the same failure, when the date range is incomplete). The selection does reach the
  frame behind the trend charts.
\<close>

theorem alerts_kpi_ignore_facility_filter:
  "map_sum id rt_alerts (rack_tab date_range sel1 df_rack)
     = map_sum id rt_alerts (rack_tab date_range sel2 df_rack)
   \<and> map_sum id rt_kpi_summary (rack_tab date_range sel1 df_rack)
     = map_sum id rt_kpi_summary (rack_tab date_range sel2 df_rack)
   \<and> map_sum id rt_df_fac_filtered (rack_tab [0, 1] [''F01''] two_rack_facilities)
     \<noteq> map_sum id rt_df_fac_filtered (rack_tab [0, 1] [''F02''] two_rack_facilities)"
proof -
  have "map_sum id rt_df_fac_filtered (rack_tab [0, 1] [''F01''] two_rack_facilities)
     \<noteq> map_sum id rt_df_fac_filtered (rack_tab [0, 1] [''F02''] two_rack_facilities)"
    by (simp add: rack_tab_def df_rack_filter_def date_bounds_def to_datetime_def between_def
        df_fac_filtered_def isin_def rack_example_def two_rack_facilities_def Let_def)
  then show ?thesis
    by (simp add: rack_tab_def Let_def split: sum.split)
qed

end
